theory Spec2Isabelle
  imports Main
begin

section \<open>Observables as synchronous notification traces\<close>

text \<open>
  The listeners are written against RxJS.  An observable is modelled by the finite
  trace of notifications it has delivered so far: values (\<open>OnNext\<close>), and at most one
  terminal notification (\<open>OnError\<close> or \<open>OnComplete\<close>) after which a subscriber
  receives nothing.  A trace with no terminal notification is a stream that is still
  open.  Operators are functions on traces; subscribing folds the subscriber's
  callbacks over the trace and stops at the first terminal notification.
\<close>

datatype js_error =
    WebSocketConnectionError (error_message: string) nat
  | Error (error_message: string)

fun error_status :: "js_error \<Rightarrow> nat option" where
  "error_status (WebSocketConnectionError m st) = Some st"
| "error_status (Error m) = None"

datatype 'a notification = OnNext 'a | OnError js_error | OnComplete

type_synonym 'a observable = "'a notification list"

text \<open>\<^verbatim>\<open>of(x)\<close>: one value, then completion.\<close>

definition of_value :: "'a \<Rightarrow> 'a observable" where
  "of_value x = [OnNext x, OnComplete]"

text \<open>\<^verbatim>\<open>map(f)\<close>, for a projection that may throw (\<open>Inl\<close>): the thrown error is sent
  downstream as an error notification, which ends the stream.\<close>

fun map_op :: "('a \<Rightarrow> js_error + 'b) \<Rightarrow> 'a observable \<Rightarrow> 'b observable" where
  "map_op f [] = []"
| "map_op f (OnNext v # ns) =
     (case f v of Inl e \<Rightarrow> [OnError e] | Inr w \<Rightarrow> OnNext w # map_op f ns)"
| "map_op f (OnError e # ns) = [OnError e]"
| "map_op f (OnComplete # ns) = [OnComplete]"

text \<open>\<^verbatim>\<open>mapTo(x)\<close>.\<close>

definition mapTo :: "'b \<Rightarrow> 'a observable \<Rightarrow> 'b observable" where
  "mapTo x = map_op (\<lambda>_. Inr x)"

text \<open>\<^verbatim>\<open>tap(f)\<close>: the values pass unchanged; what is modelled is the side effect of
  \<open>f\<close> on the state, for every value delivered before the stream ends.\<close>

fun tap :: "('a \<Rightarrow> 's \<Rightarrow> 's) \<Rightarrow> 'a observable \<Rightarrow> 's \<Rightarrow> 's" where
  "tap f [] s = s"
| "tap f (OnNext v # ns) s = tap f ns (f v s)"
| "tap f (OnError e # ns) s = s"
| "tap f (OnComplete # ns) s = s"

text \<open>\<^verbatim>\<open>defaultIfEmpty(d)\<close>: a stream that completes without a value delivers \<open>d\<close>
  before completing; every other stream is unchanged.\<close>

fun defaultIfEmpty :: "'a \<Rightarrow> 'a observable \<Rightarrow> 'a observable" where
  "defaultIfEmpty d (OnComplete # ns) = [OnNext d, OnComplete]"
| "defaultIfEmpty d ns = ns"


section \<open>Multipart fields: \<^verbatim>\<open>parseField\<close>\<close>

text \<open>
  Request objects live in a store and are passed by reference, so that the request a
  stream emits can be compared with the request that was passed in.  The body is
  absent (\<^verbatim>\<open>undefined\<close> or \<^verbatim>\<open>null\<close>) or a plain object, a map from keys to values;
  \<open>response\<close> is the back-reference the HTTP listener attaches.
\<close>

type_synonym ref = nat

record 'v HttpRequest =
  http_method :: string
  url :: string
  body :: "(string \<rightharpoonup> 'v) option"
  response :: "ref option"

type_synonym 'v store = "ref \<Rightarrow> 'v HttpRequest"

text \<open>\<^verbatim>\<open>[fieldname, value, isFile, isTruncated, mimeType, encoding]\<close>\<close>

type_synonym 'v FieldEvent = "string \<times> 'v \<times> bool \<times> bool \<times> string \<times> string"

text \<open>
  \<^verbatim>\<open>parseField\<close> reads two observables, \<^verbatim>\<open>event$\<close> and \<^verbatim>\<open>finish$\<close>.  Their
  notifications arrive in some order; the timeline lists them in that order.
\<close>

datatype 'v signal =
    Field "'v FieldEvent"
  | Finish
  | EventsComplete
  | EventsError js_error

text \<open>\<^verbatim>\<open>event$.pipe(takeUntil(finish$))\<close>: the values of \<^verbatim>\<open>event$\<close> until
  \<^verbatim>\<open>finish$\<close> emits or \<^verbatim>\<open>event$\<close> ends.\<close>

fun takeUntil :: "'v signal list \<Rightarrow> 'v FieldEvent observable" where
  "takeUntil [] = []"
| "takeUntil (Field e # ts) = OnNext e # takeUntil ts"
| "takeUntil (Finish # ts) = [OnComplete]"
| "takeUntil (EventsComplete # ts) = [OnComplete]"
| "takeUntil (EventsError x # ts) = [OnError x]"

text \<open>\<^verbatim>\<open>req.body = { ...req.body ?? {}, [fieldname]: value }\<close>\<close>

definition assign_body :: "ref \<Rightarrow> 'v FieldEvent \<Rightarrow> 'v store \<Rightarrow> 'v store" where
  "assign_body req ev s =
     (case ev of (fieldname, val, _) \<Rightarrow>
        s(req := (s req)\<lparr>body :=
            Some ((case body (s req) of None \<Rightarrow> Map.empty | Some b \<Rightarrow> b)(fieldname \<mapsto> val))\<rparr>))"

definition parseField ::
  "ref \<Rightarrow> 'v signal list \<Rightarrow> 'v store \<Rightarrow> ref observable \<times> 'v store" where
  "parseField req timeline s =
     (let taken = takeUntil timeline
      in (defaultIfEmpty req (mapTo req taken), tap (assign_body req) taken s))"

text \<open>
  What the claims about \<^verbatim>\<open>parseField\<close> speak of: the field events that reach the
  pipeline (those before the first terminating signal), whether the output stream
  completes, whether the timeline is still open, and the entry a field event writes.
\<close>

fun received :: "'v signal list \<Rightarrow> 'v FieldEvent list" where
  "received (Field e # ts) = e # received ts"
| "received ts = []"


fun pending :: "'v signal list \<Rightarrow> bool" where
  "pending [] = True"
| "pending (Field e # ts) = pending ts"
| "pending (x # ts) = False"


definition body_object :: "'v HttpRequest \<Rightarrow> (string \<rightharpoonup> 'v)" where
  "body_object r = (case body r of None \<Rightarrow> Map.empty | Some b \<Rightarrow> b)"


section \<open>The HTTP listener: \<^verbatim>\<open>httpServer\<close>\<close>

text \<open>
  \<^verbatim>\<open>HttpStatus\<close> is an enumeration of \<^verbatim>\<open>http.interface\<close>; the listener uses its
  member \<^verbatim>\<open>NOT_FOUND\<close> only.
\<close>

datatype HttpStatus = NOT_FOUND | OtherStatus nat

text \<open>\<^verbatim>\<open>handleResponse(marbleRes)(marbleReq)\<close>: the send capability, a closure over the
  response and the request.\<close>

datatype send_fn = handleResponse ref ref

record HttpResponse =
  send :: "send_fn option"

text \<open>
  What the listener does to the world outside its own objects, in program order: the two
  assignments, the call of \<^verbatim>\<open>resolve\<close>, and the event pushed into a route's subject
  (\<open>SubjectNext\<close>) or into the output subject (\<open>OutputNext\<close>, the event
  \<^verbatim>\<open>{ req, res: { status } }\<close>).  The combined middleware chain and the effect of a
  route are attached to that route's subject by \<^verbatim>\<open>resolveRouting\<close>; pushing into a
  route's subject is the only way the listener runs them.
\<close>

datatype 's http_action =
    AssignSend ref
  | AssignResponse ref
  | Resolve ref
  | SubjectNext 's ref
  | OutputNext ref HttpStatus

record ('v, 's) http_world =
  requests :: "'v store"
  responses :: "ref \<Rightarrow> HttpResponse"
  actions :: "'s http_action list"

text \<open>
  \<^verbatim>\<open>resolve\<close> comes from \<^verbatim>\<open>resolveRouting\<close>, which is not among the sources: it is a
  parameter, a function from the request (as it is when \<^verbatim>\<open>resolve\<close> is called) to the
  subject of the matching route, if any.
\<close>

definition httpServer ::
  "('v HttpRequest \<Rightarrow> 's option) \<Rightarrow> ref \<Rightarrow> ref \<Rightarrow> ('v, 's) http_world \<Rightarrow> ('v, 's) http_world" where
  "httpServer resolve req res w =
     (let w1 = w\<lparr>responses := (responses w)(res := (responses w res)\<lparr>send := Some (handleResponse res req)\<rparr>),
                 actions := actions w @ [AssignSend res]\<rparr>;
          w2 = w1\<lparr>requests := (requests w1)(req := (requests w1 req)\<lparr>response := Some res\<rparr>),
                  actions := actions w1 @ [AssignResponse req]\<rparr>;
          subject = resolve (requests w2 req);
          w3 = w2\<lparr>actions := actions w2 @ [Resolve req]\<rparr>
      in case subject of
           Some sub \<Rightarrow> w3\<lparr>actions := actions w3 @ [SubjectNext sub req]\<rparr>
         | None \<Rightarrow> w3\<lparr>actions := actions w3 @ [OutputNext req NOT_FOUND]\<rparr>)"

fun is_SubjectNext :: "'s http_action \<Rightarrow> bool" where
  "is_SubjectNext (SubjectNext sub r) = True"
| "is_SubjectNext a = False"

fun is_OutputNext :: "'s http_action \<Rightarrow> bool" where
  "is_OutputNext (OutputNext r st) = True"
| "is_OutputNext a = False"


section \<open>The WebSocket listener\<close>

subsection \<open>Values, context, configuration\<close>

text \<open>A JavaScript value, as far as \<^verbatim>\<open>Boolean\<close> tells values apart; \<open>JSobject\<close> is any
  object, the upgrade request among them.\<close>

datatype 'r js_value =
    JSundefined
  | JSnull
  | JSboolean bool
  | JSnumber int
  | JSNaN
  | JSstring string
  | JSobject 'r

fun Boolean :: "'r js_value \<Rightarrow> bool" where
  "Boolean JSundefined = False"
| "Boolean JSnull = False"
| "Boolean (JSboolean b) = b"
| "Boolean (JSnumber n) = (n \<noteq> 0)"
| "Boolean JSNaN = False"
| "Boolean (JSstring s) = (s \<noteq> [])"
| "Boolean (JSobject r) = True"

record 'ask EffectContext =
  ctx_ask :: 'ask
  ctx_client :: "ref option"

definition createEffectContext :: "'ask \<Rightarrow> ref option \<Rightarrow> 'ask EffectContext" where
  "createEffectContext a c = \<lparr>ctx_ask = a, ctx_client = c\<rparr>"

text \<open>An effect: \<^verbatim>\<open>(input$, ctx) => output$\<close>.\<close>

type_synonym ('ask, 'a, 'b) effect = "'a observable \<Rightarrow> 'ask EffectContext \<Rightarrow> 'b observable"

text \<open>
  Of the configuration, the two effects to which the listener itself gives a default,
  \<^verbatim>\<open>connection$\<close> and \<^verbatim>\<open>output$\<close>; an absent member is \<open>None\<close>.
\<close>

record ('ask, 'e, 'r) WebSocketListenerConfig =
  cfg_connection :: "('ask, 'r js_value, 'r js_value) effect option"
  cfg_output :: "('ask, 'e, 'e) effect option"

text \<open>
  The constants of the listener's closure.  \<^verbatim>\<open>combineMiddlewares\<close>, \<^verbatim>\<open>combineEffects\<close>
  and the transformer are not among the sources: the combined middlewares, the combined
  effects and the transformer's \<^verbatim>\<open>decode\<close> (which may throw, \<open>Inl\<close>) are parameters.
\<close>

record ('ask, 'f, 'e, 'r) listener =
  ask :: 'ask
  combinedMiddlewares :: "('ask, 'e, 'e) effect"
  combinedEffects :: "('ask, 'e, 'e) effect"
  decode :: "'f \<Rightarrow> js_error + 'e"
  connection_effect :: "('ask, 'r js_value, 'r js_value) effect"
  output_effect :: "('ask, 'e, 'e) effect"

definition webSocketListener ::
  "('ask, 'e, 'e) effect \<Rightarrow> ('ask, 'e, 'e) effect \<Rightarrow> ('f \<Rightarrow> js_error + 'e) \<Rightarrow>
   ('ask, 'e, 'r) WebSocketListenerConfig \<Rightarrow> 'ask \<Rightarrow> ('ask, 'f, 'e, 'r) listener" where
  "webSocketListener mws effs dec config a =
     \<lparr>ask = a,
      combinedMiddlewares = mws,
      combinedEffects = effs,
      decode = dec,
      connection_effect = (case cfg_connection config of None \<Rightarrow> (\<lambda>req ctx. req) | Some c \<Rightarrow> c),
      output_effect = (case cfg_output config of None \<Rightarrow> (\<lambda>out ctx. out) | Some out \<Rightarrow> out)\<rparr>"

subsection \<open>Admission: \<^verbatim>\<open>verifyClient\<close>\<close>

text \<open>A call of the verify callback: \<^verbatim>\<open>callback(accepted, status?, message?)\<close>.\<close>

type_synonym callback_call = "bool \<times> nat option \<times> string option"

text \<open>\<^verbatim>\<open>subscribe(next, error)\<close> on a trace: the callbacks, folded over the notifications
  up to the first terminal one.\<close>

fun subscribe :: "('a \<Rightarrow> 's \<Rightarrow> 's) \<Rightarrow> (js_error \<Rightarrow> 's \<Rightarrow> 's) \<Rightarrow> 'a observable \<Rightarrow> 's \<Rightarrow> 's" where
  "subscribe nxt err [] s = s"
| "subscribe nxt err (OnNext v # ns) s = subscribe nxt err ns (nxt v s)"
| "subscribe nxt err (OnError e # ns) s = err e s"
| "subscribe nxt err (OnComplete # ns) s = s"

definition verifyClient :: "('ask, 'f, 'e, 'r) listener \<Rightarrow> 'r \<Rightarrow> callback_call list" where
  "verifyClient l info_req =
     subscribe
       (\<lambda>isVerified calls. calls @ [(isVerified, None, None)])
       (\<lambda>error calls. calls @ [(False, error_status error, Some (error_message error))])
       (map_op (\<lambda>v. Inr (Boolean v))
          (connection_effect l (of_value (JSobject info_req)) (createEffectContext (ask l) None)))
       []"

subsection \<open>A connection: \<^verbatim>\<open>handleMessage\<close>\<close>

text \<open>
  An observable derived from a subject is modelled by the function from what the subject
  delivers (one value per call of \<^verbatim>\<open>next\<close>) to what the observable then delivers to
  its subscriber.  The combined middlewares, the combined effects and the output effect
  are thus taken to answer each value synchronously and independently of the values
  before it; what a stage delivers later, on a timer or on the completion of a request
  of its own, is outside the model.  A subscription remembers the observable it was made
  on and whether it is closed.
\<close>

record ('i, 'o) Subscription =
  source :: "'i observable \<Rightarrow> 'o observable"
  closed :: bool

text \<open>
  The state of one connection: the two \<^verbatim>\<open>let\<close> variables, whether \<^verbatim>\<open>onMessage\<close> and
  \<^verbatim>\<open>onClose\<close> are attached to the client, and a record of what has been done: the
  number of calls of \<^verbatim>\<open>subscribe\<close>, the frames passed to
  \<^verbatim>\<open>incomingEventSubject$.next\<close>, the calls of \<^verbatim>\<open>client.sendResponse\<close> and the calls of
  \<^verbatim>\<open>handleEffectsError(ctx, providedError$)\<close> (whose code is not among the sources).
\<close>

record ('f, 'e) connection =
  conn_client :: ref
  message_listener :: bool
  close_listener :: bool
  middlewaresSub :: "('f, 'e) Subscription"
  effectsSub :: "('e, 'e) Subscription"
  subscriptions :: nat
  incoming :: "'f list"
  sent :: "'e list"
  reported :: "js_error list"

definition decodedEvent :: "('ask, 'f, 'e, 'r) listener \<Rightarrow> 'f observable \<Rightarrow> 'e observable" where
  "decodedEvent l incomingEvent = map_op (decode l) incomingEvent"

definition middlewares_obs ::
  "('ask, 'f, 'e, 'r) listener \<Rightarrow> 'ask EffectContext \<Rightarrow> 'f observable \<Rightarrow> 'e observable" where
  "middlewares_obs l ctx incomingEvent = combinedMiddlewares l (decodedEvent l incomingEvent) ctx"

definition effects_obs ::
  "('ask, 'f, 'e, 'r) listener \<Rightarrow> 'ask EffectContext \<Rightarrow> 'e observable \<Rightarrow> 'e observable" where
  "effects_obs l ctx event = combinedEffects l event ctx"

definition effectsOutput ::
  "('ask, 'f, 'e, 'r) listener \<Rightarrow> 'ask EffectContext \<Rightarrow> 'e observable \<Rightarrow> 'e observable" where
  "effectsOutput l ctx event = output_effect l (effects_obs l ctx event) ctx"

text \<open>\<^verbatim>\<open>handleEffectsError(ctx, providedError$)(error)\<close>: the call is recorded.\<close>

definition handleEffectsError :: "js_error \<Rightarrow> ('f, 'e) connection \<Rightarrow> ('f, 'e) connection" where
  "handleEffectsError error c = c\<lparr>reported := reported c @ [error]\<rparr>"

text \<open>The subscriber of \<^verbatim>\<open>subscribeEffects\<close>: a closed subscriber receives nothing; an
  error or a completion closes it.\<close>

definition effects_observer ::
  "'e notification \<Rightarrow> ('f, 'e) connection \<Rightarrow> ('f, 'e) connection" where
  "effects_observer n c =
     (if closed (effectsSub c) then c
      else case n of
          OnNext event \<Rightarrow> c\<lparr>sent := sent c @ [event]\<rparr>
        | OnError error \<Rightarrow> (handleEffectsError error c)\<lparr>effectsSub := (effectsSub c)\<lparr>closed := True\<rparr>\<rparr>
        | OnComplete \<Rightarrow> c\<lparr>effectsSub := (effectsSub c)\<lparr>closed := True\<rparr>\<rparr>)"

text \<open>\<^verbatim>\<open>eventSubject$.next(event)\<close>: the subject's only observer is the effects
  subscription, while that is open.\<close>

definition eventSubject_next :: "'e \<Rightarrow> ('f, 'e) connection \<Rightarrow> ('f, 'e) connection" where
  "eventSubject_next event c =
     (if closed (effectsSub c) then c
      else foldl (\<lambda>c n. effects_observer n c) c (source (effectsSub c) [OnNext event]))"

text \<open>The subscriber of \<^verbatim>\<open>subscribeMiddlewares\<close>.\<close>

definition middlewares_observer ::
  "'e notification \<Rightarrow> ('f, 'e) connection \<Rightarrow> ('f, 'e) connection" where
  "middlewares_observer n c =
     (if closed (middlewaresSub c) then c
      else case n of
          OnNext event \<Rightarrow> eventSubject_next event c
        | OnError error \<Rightarrow> (handleEffectsError error c)\<lparr>middlewaresSub := (middlewaresSub c)\<lparr>closed := True\<rparr>\<rparr>
        | OnComplete \<Rightarrow> c\<lparr>middlewaresSub := (middlewaresSub c)\<lparr>closed := True\<rparr>\<rparr>)"

text \<open>\<^verbatim>\<open>incomingEventSubject$.next(event)\<close>\<close>

definition incomingEventSubject_next :: "'f \<Rightarrow> ('f, 'e) connection \<Rightarrow> ('f, 'e) connection" where
  "incomingEventSubject_next event c =
     (let c' = c\<lparr>incoming := incoming c @ [event]\<rparr>
      in if closed (middlewaresSub c') then c'
         else foldl (\<lambda>c n. middlewares_observer n c) c' (source (middlewaresSub c') [OnNext event]))"

definition subscribeMiddlewares ::
  "('f observable \<Rightarrow> 'e observable) \<Rightarrow> ('f, 'e) connection \<Rightarrow> ('f, 'e) connection" where
  "subscribeMiddlewares input c =
     c\<lparr>middlewaresSub := \<lparr>source = input, closed = False\<rparr>, subscriptions := Suc (subscriptions c)\<rparr>"

definition subscribeEffects ::
  "('e observable \<Rightarrow> 'e observable) \<Rightarrow> ('f, 'e) connection \<Rightarrow> ('f, 'e) connection" where
  "subscribeEffects input c =
     c\<lparr>effectsSub := \<lparr>source = input, closed = False\<rparr>, subscriptions := Suc (subscriptions c)\<rparr>"

definition connection_ctx ::
  "('ask, 'f, 'e, 'r) listener \<Rightarrow> ('f, 'e) connection \<Rightarrow> 'ask EffectContext" where
  "connection_ctx l c = createEffectContext (ask l) (Some (conn_client c))"

definition onMessage ::
  "('ask, 'f, 'e, 'r) listener \<Rightarrow> 'f \<Rightarrow> ('f, 'e) connection \<Rightarrow> ('f, 'e) connection" where
  "onMessage l event c =
     (let c1 = (if closed (middlewaresSub c)
                then subscribeMiddlewares (middlewares_obs l (connection_ctx l c)) c else c);
          c2 = (if closed (effectsSub c1)
                then subscribeEffects (effects_obs l (connection_ctx l c)) c1 else c1)
      in incomingEventSubject_next event c2)"

definition onClose :: "('f, 'e) connection \<Rightarrow> ('f, 'e) connection" where
  "onClose c =
     c\<lparr>message_listener := False,
       middlewaresSub := (middlewaresSub c)\<lparr>closed := True\<rparr>,
       effectsSub := (effectsSub c)\<lparr>closed := True\<rparr>\<rparr>"

definition handleMessage :: "('ask, 'f, 'e, 'r) listener \<Rightarrow> ref \<Rightarrow> ('f, 'e) connection" where
  "handleMessage l client =
     (let ctx = createEffectContext (ask l) (Some client)
      in \<lparr>conn_client = client,
          message_listener = True,
          close_listener = True,
          middlewaresSub = \<lparr>source = middlewares_obs l ctx, closed = False\<rparr>,
          effectsSub = \<lparr>source = effectsOutput l ctx, closed = False\<rparr>,
          subscriptions = 2,
          incoming = [],
          sent = [],
          reported = []\<rparr>)"

subsection \<open>The client's events and the server\<close>

datatype 'f client_event = MessageEvent 'f | CloseEvent

text \<open>The client emits an event: the listeners attached for it run; \<^verbatim>\<open>onClose\<close> was
  attached with \<^verbatim>\<open>once\<close>.\<close>

definition client_emit ::
  "('ask, 'f, 'e, 'r) listener \<Rightarrow> 'f client_event \<Rightarrow> ('f, 'e) connection \<Rightarrow> ('f, 'e) connection" where
  "client_emit l ev c =
     (case ev of
        MessageEvent frame \<Rightarrow> if message_listener c then onMessage l frame c else c
      | CloseEvent \<Rightarrow> if close_listener c then (onClose c)\<lparr>close_listener := False\<rparr> else c)"





section \<open>A concrete configuration\<close>

text \<open>
  A listener over string frames and string events, used to run the definitions: the
  transformer rejects the frame \<open>bad\<close>, there is no middleware, the one effect echoes
  its event and throws on \<open>boom\<close>, the output effect prefixes every outgoing event, and
  no admission effect is configured.
\<close>

definition demo_middlewares :: "(unit, string, string) effect" where
  "demo_middlewares event ctx = event"

definition demo_effects :: "(unit, string, string) effect" where
  "demo_effects event ctx =
     map_op (\<lambda>e. if e = ''boom'' then Inl (Error ''boom'') else Inr e) event"

definition demo_output :: "(unit, string, string) effect" where
  "demo_output out ctx = map_op (\<lambda>e. Inr (''out:'' @ e)) out"

definition demo_decode :: "string \<Rightarrow> js_error + string" where
  "demo_decode frame = (if frame = ''bad'' then Inl (Error ''bad frame'') else Inr frame)"

definition demo_listener :: "(unit, string, string, unit) listener" where
  "demo_listener =
     webSocketListener demo_middlewares demo_effects demo_decode
       \<lparr>cfg_connection = None, cfg_output = Some demo_output\<rparr> ()"

text \<open>A store of requests without a body, a world in which nothing has happened yet, and
  a resolver that knows the route \<^verbatim>\<open>GET /\<close> only.\<close>

definition demo_store :: "string store" where
  "demo_store = (\<lambda>r. \<lparr>http_method = ''POST'', url = ''/upload'', body = None, response = None\<rparr>)"

definition demo_world :: "(string, nat) http_world" where
  "demo_world = \<lparr>requests = demo_store, responses = (\<lambda>r. \<lparr>send = None\<rparr>), actions = []\<rparr>"

definition demo_resolve :: "string HttpRequest \<Rightarrow> nat option" where
  "demo_resolve r = (if http_method r = ''GET'' \<and> url r = ''/'' then Some 0 else None)"

definition demo_timeline :: "string signal list" where
  "demo_timeline =
     [Field (''a'', ''1'', False, False, ''text/plain'', ''7bit''),
      Field (''b'', ''2'', False, False, ''text/plain'', ''7bit''),
      Field (''a'', ''3'', False, False, ''text/plain'', ''7bit''),
      Finish,
      Field (''c'', ''4'', False, False, ''text/plain'', ''7bit'')]"

lemmas demo_defs = demo_listener_def webSocketListener_def demo_middlewares_def demo_effects_def
  demo_output_def demo_decode_def

lemmas conn_defs = handleMessage_def client_emit_def onMessage_def onClose_def
  incomingEventSubject_next_def eventSubject_next_def middlewares_observer_def effects_observer_def
  handleEffectsError_def subscribeMiddlewares_def subscribeEffects_def connection_ctx_def


section \<open>Properties of \<^verbatim>\<open>parseField\<close>\<close>

lemma assign_body_other: "r' \<noteq> r \<Longrightarrow> assign_body r e s r' = s r'"
  by (simp add: assign_body_def split: prod.splits)








lemma takeUntil_pending:
  "pending pre \<Longrightarrow> takeUntil (pre @ ts) = map OnNext (received pre) @ takeUntil ts"
  by (induction pre rule: pending.induct) simp_all

lemma tap_values:
  "tap f (map OnNext xs @ ns) s = tap f ns (foldl (\<lambda>s x. f x s) s xs)"
  by (induction xs arbitrary: s) simp_all

lemma mapTo_values:
  "mapTo r (map OnNext xs @ ns) = map (\<lambda>_. OnNext r) xs @ mapTo r ns"
  by (induction xs) (simp_all add: mapTo_def)

lemma defaultIfEmpty_values:
  "defaultIfEmpty d (map (\<lambda>_. OnNext r) xs @ [OnNext r']) = map (\<lambda>_. OnNext r) xs @ [OnNext r']"
  by (cases xs) simp_all

lemma defaultIfEmpty_open:
  "defaultIfEmpty d (map (\<lambda>_. OnNext r) xs) = map (\<lambda>_. OnNext r) xs"
  by (cases xs) simp_all

text \<open>
  Claim C10.  A field event that \<^verbatim>\<open>parseField\<close> processes (one that arrives while
  neither \<^verbatim>\<open>finish$\<close> has fired nor \<^verbatim>\<open>event$\<close> has ended) changes the request in its
  body only: the new body maps the event's field name to the event's value and agrees
  with the previous body on every other key.  The value then emitted downstream is the
  reference of the request that was passed in, and no other request of the store changes.
\<close>

theorem parseField_field_step:
  "pending pre \<Longrightarrow>
   snd (parseField req (pre @ [Field (fieldname, val, rest)]) s) req =
     (snd (parseField req pre s) req)
       \<lparr>body := Some ((body_object (snd (parseField req pre s) req))(fieldname \<mapsto> val))\<rparr>
   \<and> (\<forall>k. k \<noteq> fieldname \<longrightarrow>
         body_object (snd (parseField req (pre @ [Field (fieldname, val, rest)]) s) req) k =
         body_object (snd (parseField req pre s) req) k)
   \<and> body_object (snd (parseField req (pre @ [Field (fieldname, val, rest)]) s) req) fieldname =
       Some val
   \<and> fst (parseField req (pre @ [Field (fieldname, val, rest)]) s) =
       fst (parseField req pre s) @ [OnNext req]
   \<and> (\<forall>r. r \<noteq> req \<longrightarrow>
         snd (parseField req (pre @ [Field (fieldname, val, rest)]) s) r =
         snd (parseField req pre s) r)"
proof -
  assume p: "pending pre"
  let ?s1 = "foldl (\<lambda>s x. assign_body req x s) s (received pre)"
  have t1: "takeUntil pre = map OnNext (received pre)"
    using takeUntil_pending[OF p, of "[]"] by simp
  have t2: "takeUntil (pre @ [Field (fieldname, val, rest)]) =
              map OnNext (received pre) @ [OnNext (fieldname, val, rest)]"
    using takeUntil_pending[OF p, of "[Field (fieldname, val, rest)]"] by simp
  have s1: "snd (parseField req pre s) = ?s1"
    using tap_values[of "assign_body req" "received pre" "[]" s]
    by (simp add: parseField_def Let_def t1)
  have s2: "snd (parseField req (pre @ [Field (fieldname, val, rest)]) s) =
              assign_body req (fieldname, val, rest) ?s1"
    by (simp add: parseField_def Let_def t2 tap_values)
  have o1: "fst (parseField req pre s) = map (\<lambda>_. OnNext req) (received pre)"
    using mapTo_values[of req "received pre" "[]"]
    by (simp add: parseField_def Let_def t1 defaultIfEmpty_open mapTo_def)
  have o2: "fst (parseField req (pre @ [Field (fieldname, val, rest)]) s) =
              map (\<lambda>_. OnNext req) (received pre) @ [OnNext req]"
    using mapTo_values[of req "received pre" "[OnNext (fieldname, val, rest)]"]
          defaultIfEmpty_values[of req req "received pre" req]
    by (simp add: parseField_def Let_def t2 mapTo_def)
  show ?thesis
    unfolding s1 s2 o1 o2
    by (simp add: assign_body_def body_object_def)
qed

theorem parseField_field_step_witness:
  "pending (take 2 demo_timeline)
   \<and> body_object (snd (parseField 0 (take 2 demo_timeline) demo_store) 0) ''a'' = Some ''1''
   \<and> body_object (snd (parseField 0 (take 2 demo_timeline) demo_store) 0) ''b'' = Some ''2''
   \<and> body_object
        (snd (parseField 0
                (take 2 demo_timeline @ [Field (''a'', ''3'', False, False, ''text/plain'', ''7bit'')])
                demo_store) 0) ''a'' = Some ''3''
   \<and> body_object
        (snd (parseField 0
                (take 2 demo_timeline @ [Field (''a'', ''3'', False, False, ''text/plain'', ''7bit'')])
                demo_store) 0) ''b'' = Some ''2''
   \<and> fst (parseField 0
            (take 2 demo_timeline @ [Field (''a'', ''3'', False, False, ''text/plain'', ''7bit'')])
            demo_store) = [OnNext 0, OnNext 0, OnNext 0]"
  using parseField_field_step
    [of "take 2 demo_timeline" 0 "''a''" "''3''" "(False, False, ''text/plain'', ''7bit'')" demo_store]
  by (simp add: demo_timeline_def demo_store_def parseField_def mapTo_def assign_body_def
      body_object_def)


section \<open>Properties of the HTTP listener\<close>

text \<open>
  Claim C1.  When \<^verbatim>\<open>resolve\<close> finds no route for the request, the listener pushes
  exactly one event into the output subject, the event \<^verbatim>\<open>{ req, res: { status: NOT_FOUND } }\<close>,
  and pushes nothing into the subject of any route: neither the combined middleware chain
  nor an effect is run for the request.
\<close>

theorem httpServer_not_found:
  "resolve ((requests w req)\<lparr>response := Some res\<rparr>) = None \<Longrightarrow>
   actions (httpServer resolve req res w) =
     actions w @ [AssignSend res, AssignResponse req, Resolve req, OutputNext req NOT_FOUND]
   \<and> filter is_OutputNext (drop (length (actions w)) (actions (httpServer resolve req res w))) =
       [OutputNext req NOT_FOUND]
   \<and> filter is_SubjectNext (drop (length (actions w)) (actions (httpServer resolve req res w))) = []"
  by (simp add: httpServer_def Let_def)

theorem httpServer_not_found_witness:
  "demo_resolve ((requests demo_world 0)\<lparr>response := Some 1\<rparr>) = None
   \<and> actions (httpServer demo_resolve 0 1 demo_world) =
       [AssignSend 1, AssignResponse 0, Resolve 0, OutputNext 0 NOT_FOUND]"
  using httpServer_not_found[where resolve = demo_resolve and w = demo_world and req = 0 and res = 1]
  by (simp add: demo_resolve_def demo_world_def demo_store_def)

text \<open>
  Claim C7.  On every call, whatever \<^verbatim>\<open>resolve\<close> returns, the listener first assigns
  the send capability \<^verbatim>\<open>handleResponse(res)(req)\<close> to the response, then assigns the
  response to the request's \<^verbatim>\<open>response\<close>, and only then calls \<^verbatim>\<open>resolve\<close>; both
  assignments are in place when the call returns.
\<close>

theorem httpServer_attaches_before_resolve:
  "take 3 (drop (length (actions w)) (actions (httpServer resolve req res w))) =
     [AssignSend res, AssignResponse req, Resolve req]
   \<and> send (responses (httpServer resolve req res w) res) = Some (handleResponse res req)
   \<and> response (requests (httpServer resolve req res w) req) = Some res"
  by (simp add: httpServer_def Let_def split: option.splits)

theorem httpServer_attaches_before_resolve_witness:
  "actions (httpServer demo_resolve 0 1
      (demo_world\<lparr>requests := (\<lambda>r. \<lparr>http_method = ''GET'', url = ''/'', body = None, response = None\<rparr>)\<rparr>)) =
     [AssignSend 1, AssignResponse 0, Resolve 0, SubjectNext 0 0]
   \<and> send (responses (httpServer demo_resolve 0 1 demo_world) 1) = Some (handleResponse 1 0)
   \<and> response (requests (httpServer demo_resolve 0 1 demo_world) 0) = Some 1"
  using httpServer_attaches_before_resolve
    [where w = demo_world and resolve = demo_resolve and req = 0 and res = 1]
  by (simp add: httpServer_def demo_resolve_def demo_world_def demo_store_def)


section \<open>Properties of the WebSocket listener\<close>

subsection \<open>Admission\<close>

text \<open>
  Claim C3.  If the admission effect delivers a falsy value, the verify callback is called
  with \<^verbatim>\<open>false\<close> and neither a status nor a message; if it fails with a connection
  error, the callback is called with \<^verbatim>\<open>false\<close>, the error's status and the error's
  message; if it delivers a truthy value, the callback is called with \<^verbatim>\<open>true\<close>.
\<close>

theorem verifyClient_callback:
  "(connection_effect l (of_value (JSobject info_req)) (createEffectContext (ask l) None)
        = OnNext v # OnComplete # rest \<and> \<not> Boolean v
      \<longrightarrow> verifyClient l info_req = [(False, None, None)])
   \<and> (connection_effect l (of_value (JSobject info_req)) (createEffectContext (ask l) None)
        = OnError (WebSocketConnectionError msg st) # rest
      \<longrightarrow> verifyClient l info_req = [(False, Some st, Some msg)])
   \<and> (connection_effect l (of_value (JSobject info_req)) (createEffectContext (ask l) None)
        = OnNext v # OnComplete # rest \<and> Boolean v
      \<longrightarrow> verifyClient l info_req = [(True, None, None)])"
  by (simp add: verifyClient_def)

theorem verifyClient_callback_witness:
  "verifyClient
     (demo_listener\<lparr>connection_effect := (\<lambda>req ctx. map_op (\<lambda>r. Inr (JSboolean False)) req)\<rparr>) ()
     = [(False, None, None)]
   \<and> verifyClient
       (demo_listener\<lparr>connection_effect :=
          (\<lambda>req ctx. map_op (\<lambda>r. Inl (WebSocketConnectionError ''Unauthorized'' 4401)) req)\<rparr>) ()
     = [(False, Some 4401, Some ''Unauthorized'')]
   \<and> verifyClient
       (demo_listener\<lparr>connection_effect := (\<lambda>req ctx. map_op (\<lambda>r. Inr (JSstring ''yes'')) req)\<rparr>) ()
     = [(True, None, None)]"
  using
    verifyClient_callback
      [where l = "demo_listener\<lparr>connection_effect := (\<lambda>req ctx. map_op (\<lambda>r. Inr (JSboolean False)) req)\<rparr>"
         and info_req = "()" and v = "JSboolean False" and rest = "[]"]
    verifyClient_callback
      [where l = "demo_listener\<lparr>connection_effect :=
                    (\<lambda>req ctx. map_op (\<lambda>r. Inl (WebSocketConnectionError ''Unauthorized'' 4401)) req)\<rparr>"
         and info_req = "()" and msg = "''Unauthorized''" and st = 4401 and rest = "[]"]
    verifyClient_callback
      [where l = "demo_listener\<lparr>connection_effect := (\<lambda>req ctx. map_op (\<lambda>r. Inr (JSstring ''yes'')) req)\<rparr>"
         and info_req = "()" and v = "JSstring ''yes''" and rest = "[]"]
  by (simp add: of_value_def)

text \<open>
  Claim C9.  With no admission effect configured, \<^verbatim>\<open>connection$\<close> is the identity; the
  upgrade request it passes on is an object, hence truthy, and the verify callback is
  called once, with \<^verbatim>\<open>true\<close>.
\<close>

theorem default_connection_accepts:
  "cfg_connection config = None \<Longrightarrow>
   verifyClient (webSocketListener mws effs dec config a) info_req = [(True, None, None)]"
  by (simp add: verifyClient_def webSocketListener_def of_value_def)

theorem default_connection_accepts_witness:
  "cfg_connection \<lparr>cfg_connection = None, cfg_output = Some demo_output\<rparr> = None
   \<and> verifyClient demo_listener () = [(True, None, None)]"
  using default_connection_accepts
    [where config = "\<lparr>cfg_connection = None, cfg_output = Some demo_output\<rparr>"
       and mws = demo_middlewares and effs = demo_effects and dec = demo_decode
       and a = "()" and info_req = "()"]
  by (simp add: demo_listener_def)


subsection \<open>The observables of the concrete listener\<close>

lemma demo_middlewares_obs:
  "middlewares_obs demo_listener ctx [OnNext f] =
     (if f = ''bad'' then [OnError (Error ''bad frame'')] else [OnNext f])"
  by (simp add: middlewares_obs_def decodedEvent_def demo_defs)

lemma demo_effects_obs:
  "effects_obs demo_listener ctx [OnNext e] =
     (if e = ''boom'' then [OnError (Error ''boom'')] else [OnNext e])"
  by (simp add: effects_obs_def demo_defs)

lemma demo_effectsOutput:
  "effectsOutput demo_listener ctx [OnNext e] =
     (if e = ''boom'' then [OnError (Error ''boom'')] else [OnNext (''out:'' @ e)])"
  by (simp add: effectsOutput_def effects_obs_def demo_defs)

lemmas demo_obs = demo_middlewares_obs demo_effects_obs demo_effectsOutput

subsection \<open>What a delivery leaves unchanged\<close>

lemma effects_observer_frame:
  "message_listener (effects_observer n c) = message_listener c \<and>
   close_listener (effects_observer n c) = close_listener c \<and>
   middlewaresSub (effects_observer n c) = middlewaresSub c \<and>
   subscriptions (effects_observer n c) = subscriptions c \<and>
   incoming (effects_observer n c) = incoming c \<and>
   conn_client (effects_observer n c) = conn_client c \<and>
   source (effectsSub (effects_observer n c)) = source (effectsSub c)"
  by (simp add: effects_observer_def handleEffectsError_def split: notification.splits)

lemma effects_fold_frame:
  "message_listener (foldl (\<lambda>c n. effects_observer n c) c ns) = message_listener c \<and>
   close_listener (foldl (\<lambda>c n. effects_observer n c) c ns) = close_listener c \<and>
   middlewaresSub (foldl (\<lambda>c n. effects_observer n c) c ns) = middlewaresSub c \<and>
   subscriptions (foldl (\<lambda>c n. effects_observer n c) c ns) = subscriptions c \<and>
   incoming (foldl (\<lambda>c n. effects_observer n c) c ns) = incoming c \<and>
   conn_client (foldl (\<lambda>c n. effects_observer n c) c ns) = conn_client c \<and>
   source (effectsSub (foldl (\<lambda>c n. effects_observer n c) c ns)) = source (effectsSub c)"
proof (induction ns arbitrary: c)
  case Nil
  show ?case by simp
next
  case (Cons n ns)
  show ?case using Cons[of "effects_observer n c"] effects_observer_frame[of n c] by simp
qed

lemma eventSubject_next_frame:
  "message_listener (eventSubject_next ev c) = message_listener c \<and>
   close_listener (eventSubject_next ev c) = close_listener c \<and>
   middlewaresSub (eventSubject_next ev c) = middlewaresSub c \<and>
   subscriptions (eventSubject_next ev c) = subscriptions c \<and>
   incoming (eventSubject_next ev c) = incoming c \<and>
   conn_client (eventSubject_next ev c) = conn_client c \<and>
   source (effectsSub (eventSubject_next ev c)) = source (effectsSub c)"
  using effects_fold_frame[of c] by (simp add: eventSubject_next_def)

lemma middlewares_observer_frame:
  "message_listener (middlewares_observer n c) = message_listener c \<and>
   close_listener (middlewares_observer n c) = close_listener c \<and>
   subscriptions (middlewares_observer n c) = subscriptions c \<and>
   incoming (middlewares_observer n c) = incoming c \<and>
   conn_client (middlewares_observer n c) = conn_client c \<and>
   source (effectsSub (middlewares_observer n c)) = source (effectsSub c) \<and>
   source (middlewaresSub (middlewares_observer n c)) = source (middlewaresSub c)"
  using eventSubject_next_frame[of _ c]
  by (simp add: middlewares_observer_def handleEffectsError_def split: notification.splits)

lemma middlewares_fold_frame:
  "message_listener (foldl (\<lambda>c n. middlewares_observer n c) c ns) = message_listener c \<and>
   close_listener (foldl (\<lambda>c n. middlewares_observer n c) c ns) = close_listener c \<and>
   subscriptions (foldl (\<lambda>c n. middlewares_observer n c) c ns) = subscriptions c \<and>
   incoming (foldl (\<lambda>c n. middlewares_observer n c) c ns) = incoming c \<and>
   conn_client (foldl (\<lambda>c n. middlewares_observer n c) c ns) = conn_client c \<and>
   source (effectsSub (foldl (\<lambda>c n. middlewares_observer n c) c ns)) = source (effectsSub c) \<and>
   source (middlewaresSub (foldl (\<lambda>c n. middlewares_observer n c) c ns)) =
     source (middlewaresSub c)"
proof (induction ns arbitrary: c)
  case Nil
  show ?case by simp
next
  case (Cons n ns)
  show ?case using Cons[of "middlewares_observer n c"] middlewares_observer_frame[of n c] by simp
qed

lemma incomingEventSubject_next_frame:
  "message_listener (incomingEventSubject_next f c) = message_listener c \<and>
   close_listener (incomingEventSubject_next f c) = close_listener c \<and>
   subscriptions (incomingEventSubject_next f c) = subscriptions c \<and>
   incoming (incomingEventSubject_next f c) = incoming c @ [f] \<and>
   conn_client (incomingEventSubject_next f c) = conn_client c \<and>
   source (effectsSub (incomingEventSubject_next f c)) = source (effectsSub c) \<and>
   source (middlewaresSub (incomingEventSubject_next f c)) = source (middlewaresSub c)"
  using middlewares_fold_frame[of "c\<lparr>incoming := incoming c @ [f]\<rparr>"]
  by (simp add: incomingEventSubject_next_def Let_def)

lemma forward_fold_frame:
  "message_listener (foldl (\<lambda>c v. eventSubject_next v c) c vs) = message_listener c \<and>
   close_listener (foldl (\<lambda>c v. eventSubject_next v c) c vs) = close_listener c \<and>
   middlewaresSub (foldl (\<lambda>c v. eventSubject_next v c) c vs) = middlewaresSub c \<and>
   subscriptions (foldl (\<lambda>c v. eventSubject_next v c) c vs) = subscriptions c \<and>
   incoming (foldl (\<lambda>c v. eventSubject_next v c) c vs) = incoming c"
proof (induction vs arbitrary: c)
  case Nil
  show ?case by simp
next
  case (Cons v vs)
  show ?case using Cons[of "eventSubject_next v c"] eventSubject_next_frame[of v c] by simp
qed

subsection \<open>Delivery to an open and to a closed subscriber\<close>

lemma effects_fold_closed:
  "closed (effectsSub c) \<Longrightarrow> foldl (\<lambda>c n. effects_observer n c) c ns = c"
  by (induction ns) (simp_all add: effects_observer_def)

lemma effects_fold_values:
  "\<not> closed (effectsSub c) \<Longrightarrow>
   foldl (\<lambda>c n. effects_observer n c) c (map OnNext vs) = c\<lparr>sent := sent c @ vs\<rparr>"
proof (induction vs arbitrary: c)
  case Nil
  show ?case by simp
next
  case (Cons v vs)
  have "foldl (\<lambda>c n. effects_observer n c) (c\<lparr>sent := sent c @ [v]\<rparr>) (map OnNext vs)
          = c\<lparr>sent := sent c @ [v]\<rparr>\<lparr>sent := sent (c\<lparr>sent := sent c @ [v]\<rparr>) @ vs\<rparr>"
    using Cons.prems by (intro Cons.IH) simp
  then show ?case using Cons.prems by (simp add: effects_observer_def)
qed

lemma effects_fold_error:
  assumes "\<not> closed (effectsSub c)"
  shows "foldl (\<lambda>c n. effects_observer n c) c (map OnNext vs @ OnError err # rest) =
         c\<lparr>sent := sent c @ vs, reported := reported c @ [err],
           effectsSub := (effectsSub c)\<lparr>closed := True\<rparr>\<rparr>"
proof -
  let ?c1 = "c\<lparr>sent := sent c @ vs\<rparr>"
  let ?c2 = "effects_observer (OnError err) ?c1"
  have "foldl (\<lambda>c n. effects_observer n c) c (map OnNext vs @ OnError err # rest)
          = foldl (\<lambda>c n. effects_observer n c) ?c2 rest"
    using assms by (simp add: effects_fold_values)
  also have "\<dots> = ?c2"
    using assms
    by (intro effects_fold_closed) (simp add: effects_observer_def handleEffectsError_def)
  finally show ?thesis using assms by (simp add: effects_observer_def handleEffectsError_def)
qed

lemma middlewares_fold_closed:
  "closed (middlewaresSub c) \<Longrightarrow> foldl (\<lambda>c n. middlewares_observer n c) c ns = c"
  by (induction ns) (simp_all add: middlewares_observer_def)

lemma middlewares_fold_values:
  "\<not> closed (middlewaresSub c) \<Longrightarrow>
   foldl (\<lambda>c n. middlewares_observer n c) c (map OnNext vs) =
   foldl (\<lambda>c v. eventSubject_next v c) c vs"
proof (induction vs arbitrary: c)
  case Nil
  show ?case by simp
next
  case (Cons v vs)
  have "\<not> closed (middlewaresSub (eventSubject_next v c))"
    using Cons.prems eventSubject_next_frame[of v c] by simp
  then show ?case using Cons.prems Cons.IH[of "eventSubject_next v c"]
    by (simp add: middlewares_observer_def)
qed

lemma middlewares_fold_error:
  assumes "\<not> closed (middlewaresSub c)"
  shows "foldl (\<lambda>c n. middlewares_observer n c) c (map OnNext vs @ OnError err # rest) =
         (let c' = foldl (\<lambda>c v. eventSubject_next v c) c vs
          in c'\<lparr>reported := reported c' @ [err],
                middlewaresSub := (middlewaresSub c')\<lparr>closed := True\<rparr>\<rparr>)"
proof -
  let ?c1 = "foldl (\<lambda>c v. eventSubject_next v c) c vs"
  let ?c2 = "middlewares_observer (OnError err) ?c1"
  have op: "\<not> closed (middlewaresSub ?c1)"
    using assms forward_fold_frame[of c vs] by simp
  have "foldl (\<lambda>c n. middlewares_observer n c) c (map OnNext vs @ OnError err # rest)
          = foldl (\<lambda>c n. middlewares_observer n c) ?c2 rest"
    using assms by (simp add: middlewares_fold_values)
  also have "\<dots> = ?c2"
    using op
    by (intro middlewares_fold_closed) (simp add: middlewares_observer_def handleEffectsError_def)
  finally show ?thesis
    using op by (simp add: middlewares_observer_def handleEffectsError_def Let_def)
qed

subsection \<open>Resubscription on a frame\<close>

lemma incomingEventSubject_next_subscriptions:
  "subscriptions (incomingEventSubject_next f c) = subscriptions c"
  using incomingEventSubject_next_frame[of f c] by simp

lemma incomingEventSubject_next_incoming:
  "incoming (incomingEventSubject_next f c) = incoming c @ [f]"
  using incomingEventSubject_next_frame[of f c] by simp

lemma incomingEventSubject_next_effects_source:
  "source (effectsSub (incomingEventSubject_next f c)) = source (effectsSub c)"
  using incomingEventSubject_next_frame[of f c] by simp

lemma incomingEventSubject_next_middlewares_source:
  "source (middlewaresSub (incomingEventSubject_next f c)) = source (middlewaresSub c)"
  using incomingEventSubject_next_frame[of f c] by simp

text \<open>\<^verbatim>\<open>onMessage\<close> makes one subscription for each pipeline whose subscription is closed,
  and none for one whose subscription is open, before it passes the frame on.\<close>

lemma onMessage_subscriptions:
  "subscriptions (onMessage l frame c) =
     subscriptions c + (if closed (middlewaresSub c) then 1 else 0)
                     + (if closed (effectsSub c) then 1 else 0)"
  by (simp add: onMessage_def Let_def subscribeMiddlewares_def subscribeEffects_def
      incomingEventSubject_next_subscriptions)

lemma onMessage_incoming:
  "incoming (onMessage l frame c) = incoming c @ [frame]"
  by (simp add: onMessage_def Let_def subscribeMiddlewares_def subscribeEffects_def
      incomingEventSubject_next_incoming)

text \<open>The inbound pipeline is re-created on \<^verbatim>\<open>middlewares$\<close>, the outbound one on
  \<^verbatim>\<open>effects$\<close>.\<close>

lemma onMessage_resubscribed_sources:
  "(closed (middlewaresSub c) \<longrightarrow>
      source (middlewaresSub (onMessage l frame c)) = middlewares_obs l (connection_ctx l c))
   \<and> (closed (effectsSub c) \<longrightarrow>
      source (effectsSub (onMessage l frame c)) = effects_obs l (connection_ctx l c))"
  by (simp add: onMessage_def Let_def subscribeMiddlewares_def subscribeEffects_def
      incomingEventSubject_next_effects_source incomingEventSubject_next_middlewares_source)

text \<open>
  Claim C2.  On a frame, \<^verbatim>\<open>onMessage\<close> re-creates each closed subscription once and then
  passes the frame to \<^verbatim>\<open>incomingEventSubject$\<close>.  The outbound pipeline it re-creates is
  not the one the connection started with: \<^verbatim>\<open>handleMessage\<close> subscribes to
  \<^verbatim>\<open>effectsOutput$\<close>, the combined effects followed by the output effect, whereas
  \<^verbatim>\<open>onMessage\<close> subscribes to \<^verbatim>\<open>effects$\<close>, the combined effects alone.  With the
  listener whose output effect prefixes every event with \<open>out:\<close>, a fresh connection
  answers the frame \<open>hi\<close> with \<open>out:hi\<close>; once the frame \<open>boom\<close> has made the effect
  fail, the frame \<open>hi\<close> causes one resubscription and is answered with \<open>hi\<close>.
\<close>

theorem onMessage_resubscribes_effects_without_output:
  "(let c0 = handleMessage demo_listener 1;
        c1 = client_emit demo_listener (MessageEvent ''boom'') c0;
        c2 = client_emit demo_listener (MessageEvent ''hi'') c1
    in sent (client_emit demo_listener (MessageEvent ''hi'') c0) = [''out:hi'']
       \<and> closed (effectsSub c1) \<and> reported c1 = [Error ''boom''] \<and> subscriptions c1 = 2
       \<and> \<not> closed (effectsSub c2) \<and> subscriptions c2 = 3
       \<and> incoming c2 = [''boom'', ''hi'']
       \<and> sent c2 = [''hi'']
       \<and> source (effectsSub c0) = effectsOutput demo_listener (connection_ctx demo_listener c0)
       \<and> source (effectsSub c2) = effects_obs demo_listener (connection_ctx demo_listener c0))"
  by (simp add: Let_def conn_defs demo_obs)

text \<open>
  Claim C4.  When the outbound pipeline answers an event with an error (after the values
  \<open>vs\<close>), the error is passed to \<^verbatim>\<open>handleEffectsError\<close> once, the effects subscription
  is closed, and nothing else of the connection changes but the responses sent for
  \<open>vs\<close>: the middleware subscription and the client's listeners are as before.  When the
  inbound pipeline answers a frame with an error, the same holds for the middleware
  subscription, after the values \<open>vs\<close> have been passed to \<^verbatim>\<open>eventSubject$\<close>.  The
  connection stays open: on the next frame \<^verbatim>\<open>onMessage\<close> makes one new subscription
  for each closed pipeline and passes the frame on.
\<close>

theorem pipeline_error_routed_once:
  "(\<not> closed (effectsSub c) \<and>
    source (effectsSub c) [OnNext event] = map OnNext vs @ OnError err # rest
      \<longrightarrow> (let c' = eventSubject_next event c
           in reported c' = reported c @ [err] \<and> closed (effectsSub c') \<and> sent c' = sent c @ vs
              \<and> middlewaresSub c' = middlewaresSub c
              \<and> message_listener c' = message_listener c \<and> close_listener c' = close_listener c))
   \<and> (\<not> closed (middlewaresSub c) \<and>
      source (middlewaresSub c) [OnNext frame] = map OnNext vs @ OnError err # rest
      \<longrightarrow> (let cf = foldl (\<lambda>c v. eventSubject_next v c) (c\<lparr>incoming := incoming c @ [frame]\<rparr>) vs;
               c' = incomingEventSubject_next frame c
           in reported c' = reported cf @ [err] \<and> closed (middlewaresSub c')
              \<and> sent c' = sent cf \<and> effectsSub c' = effectsSub cf
              \<and> message_listener c' = message_listener c \<and> close_listener c' = close_listener c))
   \<and> (message_listener c \<longrightarrow>
        subscriptions (client_emit l (MessageEvent frame) c) =
          subscriptions c + (if closed (middlewaresSub c) then 1 else 0)
                          + (if closed (effectsSub c) then 1 else 0)
        \<and> incoming (client_emit l (MessageEvent frame) c) = incoming c @ [frame])"
proof (intro conjI impI)
  assume h: "\<not> closed (effectsSub c) \<and>
             source (effectsSub c) [OnNext event] = map OnNext vs @ OnError err # rest"
  then have "eventSubject_next event c =
      c\<lparr>sent := sent c @ vs, reported := reported c @ [err],
        effectsSub := (effectsSub c)\<lparr>closed := True\<rparr>\<rparr>"
    using effects_fold_error[of c vs err rest]
    by (simp add: eventSubject_next_def del: foldl_append)
  then show "let c' = eventSubject_next event c
           in reported c' = reported c @ [err] \<and> closed (effectsSub c') \<and> sent c' = sent c @ vs
              \<and> middlewaresSub c' = middlewaresSub c
              \<and> message_listener c' = message_listener c \<and> close_listener c' = close_listener c"
    by simp
next
  assume h: "\<not> closed (middlewaresSub c) \<and>
             source (middlewaresSub c) [OnNext frame] = map OnNext vs @ OnError err # rest"
  let ?c0 = "c\<lparr>incoming := incoming c @ [frame]\<rparr>"
  let ?cf = "foldl (\<lambda>c v. eventSubject_next v c) ?c0 vs"
  have "incomingEventSubject_next frame c =
      ?cf\<lparr>reported := reported ?cf @ [err],
          middlewaresSub := (middlewaresSub ?cf)\<lparr>closed := True\<rparr>\<rparr>"
    using h middlewares_fold_error[of ?c0 vs err rest]
    by (simp add: incomingEventSubject_next_def Let_def del: foldl_append)
  then show "let cf = foldl (\<lambda>c v. eventSubject_next v c) (c\<lparr>incoming := incoming c @ [frame]\<rparr>) vs;
               c' = incomingEventSubject_next frame c
           in reported c' = reported cf @ [err] \<and> closed (middlewaresSub c')
              \<and> sent c' = sent cf \<and> effectsSub c' = effectsSub cf
              \<and> message_listener c' = message_listener c \<and> close_listener c' = close_listener c"
    using forward_fold_frame[of ?c0 vs] by (simp add: Let_def)
next
  assume "message_listener c"
  then show "subscriptions (client_emit l (MessageEvent frame) c) =
          subscriptions c + (if closed (middlewaresSub c) then 1 else 0)
                          + (if closed (effectsSub c) then 1 else 0)"
    by (simp add: client_emit_def onMessage_subscriptions)
next
  assume "message_listener c"
  then show "incoming (client_emit l (MessageEvent frame) c) = incoming c @ [frame]"
    by (simp add: client_emit_def onMessage_incoming)
qed

theorem pipeline_error_routed_once_witness:
  "(let c0 = handleMessage demo_listener 1;
        c1 = eventSubject_next ''boom'' c0;
        c2 = incomingEventSubject_next ''bad'' c0
    in \<not> closed (effectsSub c0)
       \<and> source (effectsSub c0) [OnNext ''boom''] = map OnNext [] @ OnError (Error ''boom'') # []
       \<and> reported c1 = [Error ''boom''] \<and> closed (effectsSub c1) \<and> sent c1 = []
       \<and> \<not> closed (middlewaresSub c1) \<and> message_listener c1 \<and> close_listener c1
       \<and> \<not> closed (middlewaresSub c0)
       \<and> source (middlewaresSub c0) [OnNext ''bad''] = map OnNext [] @ OnError (Error ''bad frame'') # []
       \<and> reported c2 = [Error ''bad frame''] \<and> closed (middlewaresSub c2)
       \<and> \<not> closed (effectsSub c2) \<and> message_listener c2 \<and> close_listener c2
       \<and> subscriptions (client_emit demo_listener (MessageEvent ''hi'') c1) = 3
       \<and> incoming (client_emit demo_listener (MessageEvent ''hi'') c2) = [''bad'', ''hi''])"
  using
    pipeline_error_routed_once
      [where c = "handleMessage demo_listener 1" and event = "''boom''" and vs = "[]"
         and err = "Error ''boom''" and rest = "[]" and frame = "''x''" and l = demo_listener]
    pipeline_error_routed_once
      [where c = "handleMessage demo_listener 1" and frame = "''bad''" and vs = "[]"
         and err = "Error ''bad frame''" and rest = "[]" and event = "''x''" and l = demo_listener]
    pipeline_error_routed_once
      [where c = "eventSubject_next ''boom'' (handleMessage demo_listener 1)" and frame = "''hi''"
         and l = demo_listener and vs = "[]" and err = "Error ''x''" and rest = "[]" and event = "''x''"]
  by (simp add: Let_def conn_defs demo_obs)



lemma closed_ignores_messages:
  "\<not> message_listener c \<Longrightarrow> foldl (\<lambda>c f. client_emit l (MessageEvent f) c) c frames = c"
  by (induction frames) (simp_all add: client_emit_def)

text \<open>
  Claim C6.  When the client emits \<^verbatim>\<open>close\<close>, \<^verbatim>\<open>onMessage\<close> is detached from the
  client and both subscriptions are closed; whatever frames arrive afterwards, the
  connection stays as it is: none of them is passed to \<^verbatim>\<open>incomingEventSubject$\<close>, and
  nothing is sent.
\<close>

theorem onClose_detaches:
  "close_listener c \<Longrightarrow>
   (let c' = client_emit l CloseEvent c
    in \<not> message_listener c' \<and> closed (middlewaresSub c') \<and> closed (effectsSub c')
       \<and> foldl (\<lambda>c f. client_emit l (MessageEvent f) c) c' frames = c')"
  unfolding Let_def
  by (intro conjI closed_ignores_messages) (simp_all add: client_emit_def onClose_def)

theorem onClose_detaches_witness:
  "(let c0 = client_emit demo_listener (MessageEvent ''hi'') (handleMessage demo_listener 1);
        c1 = client_emit demo_listener CloseEvent c0;
        c2 = foldl (\<lambda>c f. client_emit demo_listener (MessageEvent f) c) c1 [''again'', ''boom'']
    in close_listener c0 \<and> incoming c0 = [''hi''] \<and> sent c0 = [''out:hi'']
       \<and> \<not> message_listener c1 \<and> closed (middlewaresSub c1) \<and> closed (effectsSub c1)
       \<and> incoming c2 = [''hi''] \<and> sent c2 = [''out:hi''] \<and> subscriptions c2 = 2)"
proof -
  let ?c0 = "client_emit demo_listener (MessageEvent ''hi'') (handleMessage demo_listener 1)"
  let ?c1 = "client_emit demo_listener CloseEvent ?c0"
  have c0: "close_listener ?c0 \<and> incoming ?c0 = [''hi''] \<and> sent ?c0 = [''out:hi'']
            \<and> subscriptions ?c0 = 2"
    by (simp add: conn_defs demo_obs Let_def)
  then have c1: "incoming ?c1 = [''hi''] \<and> sent ?c1 = [''out:hi''] \<and> subscriptions ?c1 = 2"
    by (simp add: client_emit_def onClose_def)
  have "close_listener ?c0" using c0 by simp
  note w = onClose_detaches
    [OF this, where l = demo_listener and frames = "[''again'', ''boom'']", unfolded Let_def]
  show ?thesis
    unfolding Let_def using c0 c1 w by simp
qed

end
